theory Spec2Isabelle
  imports Main
begin

section \<open>The HogQL query endpoint (posthog/api/hogql\_query.py)\<close>

text \<open>
  A shallow embedding of \<^verbatim>\<open>HogQLQueryViewSet\<close>: the memoised feature check
  \<^verbatim>\<open>check_team_api_queries_concurrency\<close>, the action \<^verbatim>\<open>run\<close> with its chain of
  \<^verbatim>\<open>except\<close> clauses, \<^verbatim>\<open>handle_column_ch_error\<close> and \<^verbatim>\<open>_tag_client_query_id\<close>.
  Exceptions are values of a sum type, the process-wide cache, the ambient query tags and
  the calls made to collaborators are fields of an explicit state, and the collaborators
  that live in other modules are parameters.
\<close>

subsection \<open>Python values\<close>

datatype pyval =
    PyNone
  | PyBool bool
  | PyInt int
  | PyStr string
  | PyList "pyval list"
  | PyDict "(string \<times> pyval) list"

type_synonym dict = "(string \<times> pyval) list"

text \<open>Python's truth value of an object, as \<^verbatim>\<open>if x:\<close> and \<^verbatim>\<open>x and y\<close> test it.\<close>

fun truthy :: "pyval \<Rightarrow> bool" where
  "truthy PyNone = False"
| "truthy (PyBool b) = b"
| "truthy (PyInt i) = (i \<noteq> 0)"
| "truthy (PyStr s) = (s \<noteq> [])"
| "truthy (PyList xs) = (xs \<noteq> [])"
| "truthy (PyDict d) = (d \<noteq> [])"

text \<open>\<^verbatim>\<open>d.get(k)\<close> on a dict: the value, or \<^verbatim>\<open>None\<close> when the key is missing.\<close>

definition dict_get :: "dict \<Rightarrow> string \<Rightarrow> pyval" where
  "dict_get d k = (case map_of d k of None \<Rightarrow> PyNone | Some v \<Rightarrow> v)"

subsection \<open>Decimal rendering of integers, for the f-string of the cache key\<close>

fun str_nat :: "nat \<Rightarrow> string" where
  "str_nat n =
     (if n < 10 then [''0123456789'' ! n]
      else str_nat (n div 10) @ [''0123456789'' ! (n mod 10)])"

declare str_nat.simps [simp del]

definition str_int :: "int \<Rightarrow> string" where
  "str_int i = (if i < 0 then ''-'' @ str_nat (nat (- i)) else str_nat (nat i))"

subsection \<open>A fragment of Python's regular expressions\<close>

text \<open>
  \<^verbatim>\<open>re.search(pre + ".*" + suf, s)\<close> for literal strings \<open>pre\<close> and \<open>suf\<close>, which is
  the shape of the one pattern the module uses. \<^verbatim>\<open>.\<close> matches any character but a
  newline, \<^verbatim>\<open>*\<close> is greedy and backtracks, and \<^verbatim>\<open>search\<close> returns the match at the
  leftmost position that has one. The result is \<^verbatim>\<open>match.group(0)\<close>.
\<close>

fun starts_with :: "string \<Rightarrow> string \<Rightarrow> bool" where
  "starts_with s [] = True"
| "starts_with [] (p # ps) = False"
| "starts_with (c # cs) (p # ps) = (c = p \<and> starts_with cs ps)"

text \<open>\<^verbatim>\<open>.*suf\<close> matched at the start of \<open>s\<close>: the longest alternative is tried first.\<close>

fun dotstar_then :: "string \<Rightarrow> string \<Rightarrow> string option" where
  "dotstar_then suf [] = (if suf = [] then Some [] else None)"
| "dotstar_then suf (c # cs) =
     (case (if c = CHR 0x0A then None else dotstar_then suf cs) of
        Some m \<Rightarrow> Some (c # m)
      | None \<Rightarrow> (if starts_with (c # cs) suf then Some suf else None))"

definition re_match :: "string \<Rightarrow> string \<Rightarrow> string \<Rightarrow> string option" where
  "re_match pre suf s =
     (if starts_with s pre
      then map_option (\<lambda>m. pre @ m) (dotstar_then suf (drop (length pre) s))
      else None)"

fun re_search :: "string \<Rightarrow> string \<Rightarrow> string \<Rightarrow> string option" where
  "re_search pre suf [] = re_match pre suf []"
| "re_search pre suf (c # cs) =
     (case re_match pre suf (c # cs) of
        Some m \<Rightarrow> Some m
      | None \<Rightarrow> re_search pre suf cs)"

subsection \<open>Tenants, requests and results\<close>

type_synonym organization = nat
type_synonym user = string
type_synonym execution_mode = string

record team =
  team_pk :: int
  organization :: organization

text \<open>
  The part of the view set that the methods read: \<^verbatim>\<open>self.team_id\<close> and
  \<^verbatim>\<open>self.team\<close>, which is \<^verbatim>\<open>None\<close> when the tenant cannot be resolved.
\<close>

record viewset =
  team_id :: int
  team :: "team option"

text \<open>
  \<^verbatim>\<open>QueryRequest.query\<close> is a union of query models; \<^verbatim>\<open>run\<close> only asks whether it
  is an instance of \<^verbatim>\<open>HogQLQuery\<close>. The other variants carry their kind.
\<close>

datatype query_node = HogQLQuery string | OtherQuery string string

fun is_HogQLQuery :: "query_node \<Rightarrow> bool" where
  "is_HogQLQuery (HogQLQuery q) = True"
| "is_HogQLQuery (OtherQuery kind q) = False"

record query_request =
  query :: query_node
  client_query_id :: "string option"
  refresh :: "string option"

text \<open>The request after \<^verbatim>\<open>self.get_model(request.data, QueryRequest)\<close> has parsed it.\<close>

record request =
  data :: query_request
  request_user :: user

text \<open>A pydantic model returned by the engine: field name, alias and value of each field.\<close>

datatype base_model = BaseModel "(string \<times> string option \<times> pyval) list"

datatype engine_result = DictResult dict | ModelResult base_model

record response =
  body :: dict
  status :: nat

definition HTTP_200_OK :: nat where
  "HTTP_200_OK = 200"

definition HTTP_202_ACCEPTED :: nat where
  "HTTP_202_ACCEPTED = 202"

subsection \<open>Exceptions\<close>

text \<open>
  The classes the \<^verbatim>\<open>except\<close> clauses of \<^verbatim>\<open>run\<close> name are declared in other modules
  (posthog.hogql.errors, posthog.errors, common.hogvm, posthog.clickhouse.client.limit) and
  are unrelated by inheritance, so an exception raised by a collaborator is an instance of
  at most one of them: \<open>exc_class\<close> says which, \<open>OtherException\<close> standing for every other
  subclass of \<^verbatim>\<open>Exception\<close>. \<open>exc_str\<close> is what \<^verbatim>\<open>str(e)\<close> returns and \<open>exc_attrs\<close>
  are the instance's attributes, read by \<^verbatim>\<open>getattr\<close>.
\<close>

datatype exc_class =
    ExposedHogQLError
  | ExposedCHQueryError
  | HogVMException
  | ResolutionError
  | ConcurrencyLimitExceeded
  | OtherException

record py_exception =
  exc_class :: exc_class
  exc_str :: string
  exc_attrs :: dict

text \<open>
  What can be in flight: the two rest\_framework exceptions with the arguments they were
  constructed from (\<^verbatim>\<open>ValidationError(detail, code)\<close>, \<^verbatim>\<open>Throttled(detail=...)\<close>; a
  code that is not given is \<^verbatim>\<open>None\<close>), the built-in errors Python raises on a value
  of the wrong type, and the exceptions of the collaborators.
\<close>

datatype exn =
    ValidationError string pyval
  | Throttled string
  | TypeError
  | AttributeError
  | PyExc py_exception

text \<open>
  \<^verbatim>\<open>getattr(e, name, default)\<close>. The rest\_framework exceptions and the built-in errors
  have neither a \<^verbatim>\<open>message\<close> nor a \<^verbatim>\<open>code_name\<close> attribute, the two names that
  are looked up.
\<close>

fun getattr :: "exn \<Rightarrow> string \<Rightarrow> pyval \<Rightarrow> pyval" where
  "getattr (PyExc e) name dflt = (case map_of (exc_attrs e) name of Some v \<Rightarrow> v | None \<Rightarrow> dflt)"
| "getattr e name dflt = dflt"

subsection \<open>State and collaborators\<close>

text \<open>The arguments of one call of \<^verbatim>\<open>process_query_model\<close>, with the query tags in force.\<close>

record engine_call =
  call_team :: "team option"
  call_query :: query_node
  call_execution_mode :: execution_mode
  call_query_id :: "string option"
  call_user :: user
  call_is_query_service :: bool
  call_tags :: "string \<rightharpoonup> pyval"

text \<open>
  The state the methods act on:
  \<^item> \<open>now\<close>, the time in seconds. It moves between calls, not during them;
  \<^item> \<open>cache\<close>, the process-wide cache behind \<^verbatim>\<open>cache.get\<close> and \<^verbatim>\<open>cache.set\<close>: under
    each key a value and the time at which the entry expires, \<open>None\<close> for an entry that
    never does. Only the feature check writes its key, and what it writes is the boolean
    the subscription collaborator returned, so the values are booleans;
  \<^item> \<open>feature_calls\<close>, the calls of \<^verbatim>\<open>organization.is_feature_available\<close> so far
    (receiver and argument);
  \<^item> \<open>tags\<close>, the ambient query tags of the request;
  \<^item> \<open>resolved\<close>, the calls of \<^verbatim>\<open>_process_query_request\<close> so far (their arguments);
  \<^item> \<open>dispatched\<close>, the calls of \<^verbatim>\<open>process_query_model\<close> so far;
  \<^item> \<open>captured\<close>, the exceptions handed to \<^verbatim>\<open>capture_exception\<close> so far.
\<close>

record world =
  now :: nat
  cache :: "string \<rightharpoonup> bool \<times> nat option"
  feature_calls :: "(organization \<times> string) list"
  tags :: "string \<rightharpoonup> pyval"
  resolved :: "(query_request \<times> team option \<times> string option \<times> user) list"
  dispatched :: "engine_call list"
  captured :: "exn list"

text \<open>
  The collaborators and constants that other modules define, as parameters:
  \<^verbatim>\<open>_process_query_request\<close> (posthog.api.query), \<^verbatim>\<open>process_query_model\<close>
  (posthog.api.services.query), \<^verbatim>\<open>ASYNC_MODES\<close> (posthog.hogql\_queries.query\_runner),
  \<^verbatim>\<open>model_dump(by_alias=True)\<close> of pydantic, \<^verbatim>\<open>Organization.is_feature_available\<close>,
  \<^verbatim>\<open>AvailableFeature.API_QUERIES_CONCURRENCY\<close> (posthog.constants), and the default
  timeout of the cache backend in seconds (the \<^verbatim>\<open>TIMEOUT\<close> of the Django cache
  settings, 300 when the settings give none, \<open>None\<close> for entries that never expire).
  A collaborator returns a value or raises; what it does to the state by itself is outside
  this module.
\<close>

record env =
  process_query_request ::
    "query_request \<Rightarrow> team option \<Rightarrow> string option \<Rightarrow> user
       \<Rightarrow> exn + (query_node \<times> string option \<times> execution_mode)"
  process_query_model :: "engine_call \<Rightarrow> exn + engine_result"
  ASYNC_MODES :: "execution_mode list"
  model_dump :: "base_model \<Rightarrow> dict"
  is_feature_available :: "organization \<Rightarrow> string \<Rightarrow> bool"
  API_QUERIES_CONCURRENCY :: string
  default_timeout :: "nat option"

text \<open>
  Modelled from the spec: \<^verbatim>\<open>tag_queries\<close> and \<^verbatim>\<open>get_query_tag_value\<close> of
  posthog.clickhouse.query\_tagging are not among the sources. The spec has the tagger
  "attach it to the ambient per-request tracing/logging context" (the collaborator
  interface \<^verbatim>\<open>set_correlation_id(id)\<close>): \<open>tag_queries\<close> stores the value under its
  keyword in the tags, \<open>get_query_tag_value\<close> reads a tag, \<^verbatim>\<open>None\<close> when it is not set.
\<close>

definition tag_queries :: "string \<Rightarrow> pyval \<Rightarrow> world \<Rightarrow> world" where
  "tag_queries key v w = w\<lparr>tags := (tags w)(key \<mapsto> v)\<rparr>"

definition get_query_tag_value :: "string \<Rightarrow> world \<Rightarrow> pyval" where
  "get_query_tag_value key w = (case tags w key of None \<Rightarrow> PyNone | Some v \<Rightarrow> v)"

text \<open>
  Modelled from the spec: \<^verbatim>\<open>capture_exception\<close> of posthog.exceptions\_capture is not
  among the sources. It is the exception-tracking sink \<^verbatim>\<open>report(exception)\<close>: the
  exception is added to the reports.
\<close>

definition capture_exception :: "exn \<Rightarrow> world \<Rightarrow> world" where
  "capture_exception e w = w\<lparr>captured := captured w @ [e]\<rparr>"

subsection \<open>The cache\<close>

text \<open>
  \<^verbatim>\<open>cache.get(key)\<close> of django.core.cache: the value of an entry that has not expired,
  \<^verbatim>\<open>None\<close> when there is no entry or its time has come.
\<close>

definition cache_get :: "string \<Rightarrow> world \<Rightarrow> bool option" where
  "cache_get key w =
     (case cache w key of
        None \<Rightarrow> None
      | Some (v, None) \<Rightarrow> Some v
      | Some (v, Some expires) \<Rightarrow> (if expires \<le> now w then None else Some v))"

text \<open>
  \<^verbatim>\<open>cache.set(key, value)\<close> with no \<^verbatim>\<open>timeout\<close> argument, which is how the feature
  check calls it: the entry expires after the default timeout of the backend.
\<close>

definition cache_set :: "env \<Rightarrow> string \<Rightarrow> bool \<Rightarrow> world \<Rightarrow> world" where
  "cache_set env key v w =
     w\<lparr>cache := (cache w)(key \<mapsto> (v, map_option (\<lambda>timeout. now w + timeout)
                                        (default_timeout env)))\<rparr>"

subsection \<open>The feature check\<close>

definition cache_key :: "env \<Rightarrow> viewset \<Rightarrow> string" where
  "cache_key env self =
     ''team/'' @ str_int (team_id self) @ ''/feature/'' @ API_QUERIES_CONCURRENCY env"

definition check_team_api_queries_concurrency ::
    "env \<Rightarrow> viewset \<Rightarrow> world \<Rightarrow> bool \<times> world" where
  "check_team_api_queries_concurrency env self w =
     (case cache_get (cache_key env self) w of
        Some cached \<Rightarrow> (cached, w)
      | None \<Rightarrow>
          (case team self of
             Some t \<Rightarrow>
               (let new_val = is_feature_available env (organization t) (API_QUERIES_CONCURRENCY env);
                    w1 = w\<lparr>feature_calls := feature_calls w @
                              [(organization t, API_QUERIES_CONCURRENCY env)]\<rparr>
                in (new_val, cache_set env (cache_key env self) new_val w1))
           | None \<Rightarrow> (False, w)))"

text \<open>
  A sequence of feature checks on one cache that nobody clears, made one after another by
  any tenants in any order: each element of \<open>checks\<close> is the time that passes before the
  check and the view set that makes it. \<open>invocations_for env t checks w\<close> counts the calls
  of the subscription collaborator made by the checks of tenant \<open>t\<close>, and \<open>elapsed\<close> is the
  time the whole sequence takes.
\<close>

fun invocations_for :: "env \<Rightarrow> int \<Rightarrow> (nat \<times> viewset) list \<Rightarrow> world \<Rightarrow> nat" where
  "invocations_for env t [] w = 0"
| "invocations_for env t ((delay, self) # checks) w =
     (let w1 = w\<lparr>now := now w + delay\<rparr>;
          w' = snd (check_team_api_queries_concurrency env self w1)
      in (if team_id self = t then length (feature_calls w') - length (feature_calls w1) else 0)
         + invocations_for env t checks w')"

definition elapsed :: "(nat \<times> viewset) list \<Rightarrow> nat" where
  "elapsed checks = sum_list (map fst checks)"

text \<open>The entry under \<open>key\<close> is there and does not expire up to the time \<open>t\<close>.\<close>

definition fresh_until :: "string \<Rightarrow> nat \<Rightarrow> world \<Rightarrow> bool" where
  "fresh_until key t w =
     (case cache w key of
        None \<Rightarrow> False
      | Some (v, None) \<Rightarrow> True
      | Some (v, Some expires) \<Rightarrow> t < expires)"

subsection \<open>The action \<^verbatim>\<open>run\<close>\<close>

definition tag_client_query_id :: "string option \<Rightarrow> world \<Rightarrow> world" where
  "tag_client_query_id query_id w =
     (case query_id of
        None \<Rightarrow> w
      | Some qid \<Rightarrow> tag_queries ''client_query_id'' (PyStr qid) w)"

definition column_pattern_pre :: string where
  "column_pattern_pre = ''There'' @ [CHR 0x27] @ ''s no column''"

definition column_pattern_suf :: string where
  "column_pattern_suf = ''in table''"

definition beta_note :: string where
  "beta_note = ''. Note: While in beta, not all column types may be fully supported''"

text \<open>
  \<^verbatim>\<open>handle_column_ch_error\<close>: \<open>Inl\<close> is the exception it raises, \<open>Inr ()\<close> its plain
  return. \<^verbatim>\<open>re.search\<close> raises \<^verbatim>\<open>TypeError\<close> on a subject that is not a string.
\<close>

definition handle_column_ch_error :: "exn \<Rightarrow> exn + unit" where
  "handle_column_ch_error error =
     (let message = getattr error ''message'' PyNone in
      if truthy message then
        (case message of
           PyStr s \<Rightarrow>
             (case re_search column_pattern_pre column_pattern_suf s of
                Some group0 \<Rightarrow> Inl (ValidationError (group0 @ beta_note) PyNone)
              | None \<Rightarrow> Inr ())
         | _ \<Rightarrow> Inl TypeError)
      else Inr ())"

text \<open>
  \<^verbatim>\<open>result.get("query_status") and result["query_status"].get("complete") is False\<close>,
  then the choice of the status. \<^verbatim>\<open>.get\<close> on a value that is not a dict raises
  \<^verbatim>\<open>AttributeError\<close>.
\<close>

definition response_status :: "dict \<Rightarrow> exn + nat" where
  "response_status result =
     (let query_status = dict_get result ''query_status'' in
      if truthy query_status then
        (case query_status of
           PyDict qs \<Rightarrow>
             Inr (if dict_get qs ''complete'' = PyBool False then HTTP_202_ACCEPTED else HTTP_200_OK)
         | _ \<Rightarrow> Inl AttributeError)
      else Inr HTTP_200_OK)"

text \<open>
  The arguments of the call of \<^verbatim>\<open>process_query_model\<close> (source lines 76 to 83), built
  in the state \<open>w\<close> in which the call is made.
\<close>

definition engine_args ::
    "viewset \<Rightarrow> request \<Rightarrow> query_node \<Rightarrow> string option \<Rightarrow> execution_mode \<Rightarrow> world
       \<Rightarrow> engine_call" where
  "engine_args self request qry cqid execution_mode w =
     \<lparr>call_team = team self, call_query = qry,
      call_execution_mode = execution_mode, call_query_id = cqid,
      call_user = request_user request,
      call_is_query_service =
        (get_query_tag_value ''access_method'' w = PyStr ''personal_api_key''),
      call_tags = tags w\<rparr>"

text \<open>The call of \<^verbatim>\<open>_process_query_request\<close> (source lines 69 to 71), put on record.\<close>

definition resolver_called :: "viewset \<Rightarrow> request \<Rightarrow> world \<Rightarrow> world" where
  "resolver_called self request w =
     w\<lparr>resolved := resolved w @
          [(data request, team self, client_query_id (data request), request_user request)]\<rparr>"

text \<open>The body of the \<^verbatim>\<open>try\<close> statement (source lines 69 to 91).\<close>

definition try_body :: "env \<Rightarrow> viewset \<Rightarrow> request \<Rightarrow> world \<Rightarrow> (exn + response) \<times> world" where
  "try_body env self request w =
     (let wr = resolver_called self request w
      in case process_query_request env (data request) (team self)
             (client_query_id (data request)) (request_user request) of
        Inl e \<Rightarrow> (Inl e, wr)
      | Inr (qry, cqid, execution_mode) \<Rightarrow>
          (let w1 = tag_client_query_id cqid wr in
           if execution_mode \<in> set (ASYNC_MODES env) then
             (Inl (ValidationError ''only sync modes are supported (refresh param)'' PyNone), w1)
           else
             (let call = engine_args self request qry cqid execution_mode w1;
                  w2 = w1\<lparr>dispatched := dispatched w1 @ [call]\<rparr>
              in case process_query_model env call of
                   Inl e \<Rightarrow> (Inl e, w2)
                 | Inr r \<Rightarrow>
                     (let result = (case r of ModelResult m \<Rightarrow> model_dump env m
                                            | DictResult d \<Rightarrow> d)
                      in case response_status result of
                           Inl e \<Rightarrow> (Inl e, w2)
                         | Inr st \<Rightarrow> (Inr \<lparr>body = result, status = st\<rparr>, w2)))))"

text \<open>
  \<^verbatim>\<open>except (C1, ..., Cn) as e\<close>: the clause takes a collaborator's exception that is an
  instance of one of the classes, and binds it.
\<close>

fun caught_as :: "exn \<Rightarrow> exc_class list \<Rightarrow> py_exception option" where
  "caught_as (PyExc e) classes =
     (if exc_class e \<in> set classes then Some e else None)"
| "caught_as e classes = None"

text \<open>The last clause, \<^verbatim>\<open>except Exception as e\<close> (source lines 98 to 101).\<close>

definition except_Exception :: "exn \<Rightarrow> world \<Rightarrow> (exn + response) \<times> world" where
  "except_Exception e w =
     (case handle_column_ch_error e of
        Inl e' \<Rightarrow> (Inl e', w)
      | Inr u \<Rightarrow> (Inl e, capture_exception e w))"

definition except_clauses :: "exn \<Rightarrow> world \<Rightarrow> (exn + response) \<times> world" where
  "except_clauses exc w =
     (case caught_as exc [ExposedHogQLError, ExposedCHQueryError, HogVMException] of
        Some e \<Rightarrow> (Inl (ValidationError (exc_str e) (getattr exc ''code_name'' PyNone)), w)
      | None \<Rightarrow>
     (case caught_as exc [ResolutionError] of
        Some e \<Rightarrow> (Inl (ValidationError (exc_str e) PyNone), w)
      | None \<Rightarrow>
     (case caught_as exc [ConcurrencyLimitExceeded] of
        Some c \<Rightarrow> (Inl (Throttled (exc_str c)), w)
      | None \<Rightarrow> except_Exception exc w)))"

definition run :: "env \<Rightarrow> viewset \<Rightarrow> request \<Rightarrow> world \<Rightarrow> (exn + response) \<times> world" where
  "run env self request w =
     (if \<not> is_HogQLQuery (query (data request)) then
        (Inl (ValidationError ''This endpoint only supports HogQLQuery'' PyNone), w)
      else
        (case try_body env self request w of
           (Inr resp, w') \<Rightarrow> (Inr resp, w')
         | (Inl e, w') \<Rightarrow> except_clauses e w'))"

subsection \<open>Concrete collaborators and inputs\<close>

text \<open>
  A resolver that keeps the query and the caller's id and runs blocking, an engine that
  returns an empty mapping, the organization 7 as the only subscriber of the feature, and
  a cache whose entries live 300 seconds.
\<close>

definition env0 :: env where
  "env0 =
     \<lparr>process_query_request = (\<lambda>d t c u. Inr (query d, c, ''blocking'')),
      process_query_model = (\<lambda>c. Inr (DictResult [])),
      ASYNC_MODES = [''force_async'', ''async''],
      model_dump = (\<lambda>m. case m of BaseModel fs \<Rightarrow>
                      map (\<lambda>(n, a, v). (case a of None \<Rightarrow> n | Some x \<Rightarrow> x, v)) fs),
      is_feature_available = (\<lambda>org f. org = 7),
      API_QUERIES_CONCURRENCY = ''api_queries_concurrency'',
      default_timeout = Some 300\<rparr>"

definition w0 :: world where
  "w0 = \<lparr>now = 0, cache = Map.empty, feature_calls = [], tags = Map.empty, resolved = [],
         dispatched = [], captured = []\<rparr>"

definition self0 :: viewset where
  "self0 = \<lparr>team_id = 2, team = Some \<lparr>team_pk = 2, organization = 7\<rparr>\<rparr>"

text \<open>Another tenant, of an organization that does not subscribe to the feature.\<close>

definition self3 :: viewset where
  "self3 = \<lparr>team_id = 3, team = Some \<lparr>team_pk = 3, organization = 8\<rparr>\<rparr>"

text \<open>A request for a HogQL query with a caller-supplied id, and variations of it.\<close>

definition req0 :: request where
  "req0 = \<lparr>data = \<lparr>query = HogQLQuery ''select 1'', client_query_id = Some ''abc123'',
                   refresh = None\<rparr>,
           request_user = ''alice''\<rparr>"

definition req_trends :: request where
  "req_trends = req0\<lparr>data := (data req0)\<lparr>query := OtherQuery ''TrendsQuery'' ''{}''\<rparr>\<rparr>"

definition req_empty_id :: request where
  "req_empty_id = req0\<lparr>data := (data req0)\<lparr>client_query_id := Some []\<rparr>\<rparr>"

definition req_no_id :: request where
  "req_no_id = req0\<lparr>data := (data req0)\<lparr>client_query_id := None\<rparr>\<rparr>"

text \<open>Collaborators: a resolver that asks for an asynchronous mode, engines that raise or return.\<close>

definition env_async :: env where
  "env_async = env0\<lparr>process_query_request := (\<lambda>d t c u. Inr (query d, c, ''force_async''))\<rparr>"

definition engine_raising :: "exn \<Rightarrow> env" where
  "engine_raising e = env0\<lparr>process_query_model := (\<lambda>c. Inl e)\<rparr>"

definition engine_returning :: "engine_result \<Rightarrow> env" where
  "engine_returning r = env0\<lparr>process_query_model := (\<lambda>c. Inr r)\<rparr>"

text \<open>Exceptions of the collaborators.\<close>

definition column_error :: py_exception where
  "column_error =
     \<lparr>exc_class = OtherException,
      exc_str = ''Code: 47.'',
      exc_attrs = [(''message'', PyStr (''DB::Exception: There'' @ [CHR 0x27] @
                     ''s no column foo in table events. Stack trace''))]\<rparr>"

definition nsc_error :: py_exception where
  "nsc_error =
     \<lparr>exc_class = OtherException,
      exc_str = ''no such column foo in table bar'',
      exc_attrs = [(''message'', PyStr ''no such column foo in table bar'')]\<rparr>"

definition quiet_error :: py_exception where
  "quiet_error =
     \<lparr>exc_class = OtherException,
      exc_str = ''There'' @ [CHR 0x27] @ ''s no column foo in table events'',
      exc_attrs = []\<rparr>"

definition limit_error :: py_exception where
  "limit_error =
     \<lparr>exc_class = ConcurrencyLimitExceeded,
      exc_str = ''team X exceeded limit'',
      exc_attrs = []\<rparr>"

definition hogql_error :: py_exception where
  "hogql_error =
     \<lparr>exc_class = ExposedHogQLError,
      exc_str = ''Unknown table'',
      exc_attrs = [(''message'', PyStr ''Unknown table''),
                   (''code_name'', PyStr ''unknown_table'')]\<rparr>"

definition resolution_error :: py_exception where
  "resolution_error =
     \<lparr>exc_class = ResolutionError,
      exc_str = ''Unable to resolve field: x'',
      exc_attrs = [(''message'', PyStr ''Unable to resolve field: x''),
                   (''code_name'', PyStr ''resolution'')]\<rparr>"

text \<open>Results of the engine.\<close>

definition incomplete_result :: dict where
  "incomplete_result =
     [(''query_status'', PyDict [(''complete'', PyBool False)]), (''rows'', PyList [])]"

definition rows_result :: dict where
  "rows_result = [(''rows'', PyList [PyInt 1, PyInt 2, PyInt 3])]"

definition model_result :: base_model where
  "model_result =
     BaseModel [(''query_status'', None, PyDict [(''complete'', PyBool True)]),
                (''has_more'', Some ''hasMore'', PyBool False)]"

section \<open>Properties\<close>

subsection \<open>The regular-expression fragment\<close>

text \<open>
  What \<open>re_search\<close> finds: the subject has a match exactly when it contains \<open>pre\<close>, then
  text without a newline, then \<open>suf\<close>; the value returned is such an occurrence.
\<close>

lemma starts_with_iff: "starts_with s p \<longleftrightarrow> (\<exists>r. s = p @ r)"
  by (induction s p rule: starts_with.induct) auto

lemma dotstar_then_sound:
  "dotstar_then suf s = Some m \<Longrightarrow>
   \<exists>x b. m = x @ suf \<and> s = x @ suf @ b \<and> CHR 0x0A \<notin> set x"
proof (induction s arbitrary: m)
  case Nil
  then show ?case by (simp split: if_splits)
next
  case (Cons c cs)
  show ?case
  proof (cases "if c = CHR 0x0A then None else dotstar_then suf cs")
    case None
    with Cons.prems have "starts_with (c # cs) suf" and "m = suf"
      by (auto split: if_splits)
    then obtain b where "c # cs = suf @ b" using starts_with_iff by blast
    with \<open>m = suf\<close> have "m = [] @ suf \<and> c # cs = [] @ suf @ b \<and> CHR 0x0A \<notin> set []" by simp
    then show ?thesis by blast
  next
    case (Some m')
    then have c: "c \<noteq> CHR 0x0A" and r: "dotstar_then suf cs = Some m'"
      by (auto split: if_splits)
    from Cons.prems Some have m: "m = c # m'" by simp
    from Cons.IH [OF r] obtain x b where "m' = x @ suf" "cs = x @ suf @ b" "CHR 0x0A \<notin> set x"
      by blast
    with c m have "m = (c # x) @ suf \<and> c # cs = (c # x) @ suf @ b \<and> CHR 0x0A \<notin> set (c # x)"
      by simp
    then show ?thesis by blast
  qed
qed

lemma dotstar_then_here: "dotstar_then suf (suf @ b) \<noteq> None"
proof (cases "suf @ b")
  case Nil
  then show ?thesis by simp
next
  case (Cons c cs)
  then have "starts_with (c # cs) suf"
    using starts_with_iff by metis
  then show ?thesis
    unfolding Cons by (auto split: option.splits)
qed

lemma dotstar_then_complete:
  "CHR 0x0A \<notin> set x \<Longrightarrow> dotstar_then suf (x @ suf @ b) \<noteq> None"
  by (induction x) (auto simp add: dotstar_then_here split: option.splits)

lemma re_match_sound:
  "re_match pre suf s = Some g \<Longrightarrow>
   \<exists>m b. g = pre @ m @ suf \<and> s = pre @ m @ suf @ b \<and> CHR 0x0A \<notin> set m"
proof -
  assume a: "re_match pre suf s = Some g"
  then obtain r where s: "s = pre @ r"
    by (auto simp add: re_match_def starts_with_iff split: if_splits)
  with a obtain m' where "dotstar_then suf r = Some m'" and g: "g = pre @ m'"
    by (auto simp add: re_match_def split: if_splits)
  then obtain x b where "m' = x @ suf" "r = x @ suf @ b" "CHR 0x0A \<notin> set x"
    using dotstar_then_sound by blast
  with s g show ?thesis by auto
qed

lemma re_match_complete:
  "CHR 0x0A \<notin> set m \<Longrightarrow> re_match pre suf (pre @ m @ suf @ b) \<noteq> None"
  using dotstar_then_complete [of m suf b]
  by (auto simp add: re_match_def starts_with_iff)

lemma re_search_sound:
  "re_search pre suf s = Some g \<Longrightarrow>
   \<exists>a m b. g = pre @ m @ suf \<and> s = a @ pre @ m @ suf @ b \<and> CHR 0x0A \<notin> set m"
proof (induction s)
  case Nil
  then obtain m b where "g = pre @ m @ suf \<and> [] = [] @ pre @ m @ suf @ b \<and> CHR 0x0A \<notin> set m"
    using re_match_sound [of pre suf "[]" g] by auto
  then show ?case by blast
next
  case (Cons c cs)
  show ?case
  proof (cases "re_match pre suf (c # cs)")
    case None
    with Cons.prems have "re_search pre suf cs = Some g" by simp
    from Cons.IH [OF this] obtain a m b where
      "g = pre @ m @ suf" "cs = a @ pre @ m @ suf @ b" "CHR 0x0A \<notin> set m" by blast
    then have "g = pre @ m @ suf \<and> c # cs = (c # a) @ pre @ m @ suf @ b \<and> CHR 0x0A \<notin> set m"
      by simp
    then show ?thesis by blast
  next
    case (Some g')
    with Cons.prems have "g' = g" by simp
    with Some obtain m b where
      "g = pre @ m @ suf \<and> c # cs = [] @ pre @ m @ suf @ b \<and> CHR 0x0A \<notin> set m"
      using re_match_sound [of pre suf "c # cs" g] by auto
    then show ?thesis by blast
  qed
qed

lemma re_search_complete:
  "CHR 0x0A \<notin> set m \<Longrightarrow> re_search pre suf (a @ pre @ m @ suf @ b) \<noteq> None"
proof (induction a)
  case Nil
  then show ?case
    using re_match_complete [of m pre suf b]
    by (cases "pre @ m @ suf @ b") (auto split: option.splits)
next
  case (Cons c a)
  then show ?case by (auto split: option.splits)
qed

subsection \<open>Unfolding the definitions on concrete inputs\<close>

lemmas ex_defs = req_empty_id_def req_no_id_def env0_def w0_def self0_def req0_def
  req_trends_def column_error_def nsc_error_def
  engine_raising_def env_async_def engine_returning_def quiet_error_def limit_error_def
  hogql_error_def resolution_error_def incomplete_result_def rows_result_def
  model_result_def

lemmas run_defs = run_def try_body_def except_clauses_def except_Exception_def
  handle_column_ch_error_def response_status_def engine_args_def resolver_called_def
  tag_client_query_id_def
  tag_queries_def get_query_tag_value_def capture_exception_def dict_get_def Let_def
  column_pattern_pre_def column_pattern_suf_def beta_note_def re_match_def
  HTTP_200_OK_def HTTP_202_ACCEPTED_def

subsection \<open>The cache key\<close>

text \<open>
  The decimal rendering of integers is injective and has no \<^verbatim>\<open>/\<close>, so the key
  determines the tenant id and the feature name.
\<close>

lemma digit_inj:
  "a < 10 \<Longrightarrow> b < 10 \<Longrightarrow> ''0123456789'' ! a = ''0123456789'' ! b \<Longrightarrow> a = b"
proof -
  assume a: "a < 10" and b: "b < 10" and e: "''0123456789'' ! a = ''0123456789'' ! b"
  have d: "distinct ''0123456789''" by simp
  have l: "length ''0123456789'' = 10" by simp
  from a b l have "a < length ''0123456789''" "b < length ''0123456789''" by simp_all
  with d e show "a = b" by (simp only: nth_eq_iff_index_eq)
qed

lemma str_nat_not_Nil: "str_nat n \<noteq> []"
  by (subst str_nat.simps) simp

lemma str_nat_digits: "set (str_nat n) \<subseteq> set ''0123456789''"
proof (induction n rule: str_nat.induct)
  case (1 n)
  have d: "''0123456789'' ! k \<in> set ''0123456789''" if "k < 10" for k
    using that nth_mem [of k "''0123456789''"] by simp
  show ?case
  proof (cases "n < 10")
    case True
    then show ?thesis using d [of n] by (subst str_nat.simps) simp
  next
    case False
    have "n mod 10 < 10" by simp
    then show ?thesis using False "1.IH" d [of "n mod 10"] by (subst str_nat.simps) simp
  qed
qed

lemma str_nat_inj: "str_nat m = str_nat n \<Longrightarrow> m = n"
proof (induction m arbitrary: n rule: str_nat.induct)
  case (1 m)
  show ?case
  proof (cases "m < 10")
    case m: True
    show ?thesis
    proof (cases "n < 10")
      case True
      with m "1.prems" show ?thesis
        using digit_inj [of m n] by (simp add: str_nat.simps [of m] str_nat.simps [of n])
    next
      case False
      with m "1.prems" show ?thesis
        using str_nat_not_Nil [of "n div 10"]
        by (simp add: str_nat.simps [of m] str_nat.simps [of n])
    qed
  next
    case m: False
    show ?thesis
    proof (cases "n < 10")
      case True
      with m "1.prems" show ?thesis
        using str_nat_not_Nil [of "m div 10"]
        by (simp add: str_nat.simps [of m] str_nat.simps [of n])
    next
      case False
      with m "1.prems" have a: "str_nat (m div 10) = str_nat (n div 10)"
        and b: "''0123456789'' ! (m mod 10) = ''0123456789'' ! (n mod 10)"
        by (simp_all add: str_nat.simps [of m] str_nat.simps [of n])
      have "m div 10 = n div 10" using "1.IH" [OF m a] .
      moreover have "m mod 10 = n mod 10" using digit_inj [OF _ _ b] by simp
      ultimately show ?thesis by (metis div_mult_mod_eq)
    qed
  qed
qed

lemma str_nat_no_slash: "CHR ''/'' \<notin> set (str_nat n)"
  using str_nat_digits [of n] by auto

lemma str_nat_no_minus: "CHR ''-'' \<notin> set (str_nat n)"
  using str_nat_digits [of n] by auto

lemma str_int_no_slash: "CHR ''/'' \<notin> set (str_int k)"
  by (simp add: str_int_def str_nat_no_slash)

lemma str_int_inj: "str_int i = str_int j \<Longrightarrow> i = j"
proof -
  assume e: "str_int i = str_int j"
  have neg: "hd (str_int k) = CHR ''-''" if "k < 0" for k
    using that by (simp add: str_int_def)
  have pos: "hd (str_int k) \<noteq> CHR ''-''" if "\<not> k < 0" for k
  proof -
    have "hd (str_nat (nat k)) \<in> set (str_nat (nat k))"
      using str_nat_not_Nil [of "nat k"] by simp
    then have "hd (str_nat (nat k)) \<noteq> CHR ''-''"
      using str_nat_no_minus [of "nat k"] by metis
    then show ?thesis using that by (simp add: str_int_def)
  qed
  show "i = j"
  proof (cases "i < 0")
    case True
    then have "j < 0" using e neg [of i] pos [of j] by auto
    with True e have "str_nat (nat (- i)) = str_nat (nat (- j))" by (simp add: str_int_def)
    then have "nat (- i) = nat (- j)" by (rule str_nat_inj)
    with True \<open>j < 0\<close> show ?thesis by simp
  next
    case False
    then have "\<not> j < 0" using e neg [of j] pos [of i] by auto
    with False e have "str_nat (nat i) = str_nat (nat j)" by (simp add: str_int_def)
    then have "nat i = nat j" by (rule str_nat_inj)
    with False \<open>\<not> j < 0\<close> show ?thesis by simp
  qed
qed

lemma key_split:
  assumes "a @ c # r = b @ c # r'" and "c \<notin> set a" and "c \<notin> set b"
  shows "a = b \<and> r = r'"
proof -
  have t: "takeWhile (\<lambda>x. x \<noteq> c) (xs @ c # ys) = xs" if "c \<notin> set xs" for xs ys
    using that by (induction xs) auto
  have "a = b" using t [OF assms(2), of r] t [OF assms(3), of r'] assms(1) by simp
  with assms(1) show ?thesis by simp
qed

lemma cache_key_inj:
  "cache_key env self = cache_key env' self' \<longleftrightarrow>
     team_id self = team_id self' \<and> API_QUERIES_CONCURRENCY env = API_QUERIES_CONCURRENCY env'"
proof
  assume "cache_key env self = cache_key env' self'"
  then have "str_int (team_id self) @ CHR ''/'' # (''feature/'' @ API_QUERIES_CONCURRENCY env) =
             str_int (team_id self') @ CHR ''/'' # (''feature/'' @ API_QUERIES_CONCURRENCY env')"
    by (simp add: cache_key_def)
  then have "str_int (team_id self) = str_int (team_id self')
        \<and> ''feature/'' @ API_QUERIES_CONCURRENCY env = ''feature/'' @ API_QUERIES_CONCURRENCY env'"
    by (rule key_split) (rule str_int_no_slash)+
  then show "team_id self = team_id self' \<and> API_QUERIES_CONCURRENCY env = API_QUERIES_CONCURRENCY env'"
    using str_int_inj by simp
next
  assume "team_id self = team_id self' \<and> API_QUERIES_CONCURRENCY env = API_QUERIES_CONCURRENCY env'"
  then show "cache_key env self = cache_key env' self'" by (simp add: cache_key_def)
qed

subsection \<open>The feature check is memoised until the entry expires\<close>

text \<open>
  An entry that stays fresh until a time \<open>t\<close> is found by every lookup up to \<open>t\<close>, and the
  checks of other tenants leave it alone.
\<close>

lemma fresh_until_cache_get:
  "fresh_until key t w \<Longrightarrow> now w \<le> t \<Longrightarrow> cache_get key w \<noteq> None"
  by (auto simp add: fresh_until_def cache_get_def split: option.splits)

lemma fresh_until_now [simp]: "fresh_until key t (w\<lparr>now := n\<rparr>) = fresh_until key t w"
  by (simp add: fresh_until_def)

lemma check_now [simp]: "now (snd (check_team_api_queries_concurrency env self w)) = now w"
  by (simp add: check_team_api_queries_concurrency_def cache_set_def Let_def
        split: option.splits)

lemma check_other_key:
  "key \<noteq> cache_key env self \<Longrightarrow>
   cache (snd (check_team_api_queries_concurrency env self w)) key = cache w key"
  by (simp add: check_team_api_queries_concurrency_def cache_set_def Let_def
        split: option.splits)

lemma check_hit:
  "cache_get (cache_key env self) w \<noteq> None \<Longrightarrow>
   snd (check_team_api_queries_concurrency env self w) = w"
  by (auto simp add: check_team_api_queries_concurrency_def)

lemma check_keeps_fresh:
  assumes "fresh_until key t w" and "now w \<le> t"
  shows "fresh_until key t (snd (check_team_api_queries_concurrency env self w))"
proof (cases "key = cache_key env self")
  case True
  then show ?thesis
    using assms fresh_until_cache_get [OF assms] check_hit [of env self w] by simp
next
  case False
  then show ?thesis
    using assms(1) check_other_key [of key env self w] by (simp add: fresh_until_def)
qed

lemma check_call_caches:
  assumes "feature_calls (snd (check_team_api_queries_concurrency env self w)) \<noteq> feature_calls w"
    and "case default_timeout env of None \<Rightarrow> True | Some timeout \<Rightarrow> t < now w + timeout"
  shows "fresh_until (cache_key env self) t (snd (check_team_api_queries_concurrency env self w))"
  using assms
  by (auto simp add: check_team_api_queries_concurrency_def cache_set_def Let_def
        fresh_until_def split: option.splits)

lemma check_calls_le_1:
  "length (feature_calls (snd (check_team_api_queries_concurrency env self w)))
     - length (feature_calls w) \<le> 1"
  by (simp add: check_team_api_queries_concurrency_def cache_set_def Let_def
        split: option.splits)

lemma cache_key_team_id:
  "team_id self = team_id self' \<Longrightarrow> cache_key env self = cache_key env self'"
  by (simp add: cache_key_def)

lemma invocations_for_fresh:
  "fresh_until (cache_key env s) t w \<Longrightarrow> now w + elapsed checks \<le> t \<Longrightarrow>
   invocations_for env (team_id s) checks w = 0"
proof (induction checks arbitrary: w)
  case Nil
  show ?case by simp
next
  case (Cons c checks)
  obtain delay self where c: "c = (delay, self)" by (cases c)
  let ?w1 = "w\<lparr>now := now w + delay\<rparr>"
  let ?w' = "snd (check_team_api_queries_concurrency env self ?w1)"
  have t: "now ?w1 + elapsed checks \<le> t"
    using Cons.prems(2) c by (simp add: elapsed_def)
  then have n: "now ?w1 \<le> t" by simp
  have f1: "fresh_until (cache_key env s) t ?w1"
    using Cons.prems(1) by simp
  have f': "fresh_until (cache_key env s) t ?w'"
    using check_keeps_fresh [OF f1 n] .
  have rest: "invocations_for env (team_id s) checks ?w' = 0"
    using Cons.IH [OF f'] t by simp
  have here: "feature_calls ?w' = feature_calls ?w1" if "team_id self = team_id s"
    using fresh_until_cache_get [OF f1 n] cache_key_team_id [OF that, of env]
          check_hit [of env self ?w1] by simp
  show ?case using rest here by (simp add: c Let_def)
qed

lemma invocations_for_le_1:
  "(case default_timeout env of None \<Rightarrow> True | Some timeout \<Rightarrow> elapsed checks < timeout) \<Longrightarrow>
   invocations_for env t checks w \<le> 1"
proof (induction checks arbitrary: w)
  case Nil
  show ?case by simp
next
  case (Cons c checks)
  obtain delay self where c: "c = (delay, self)" by (cases c)
  let ?w1 = "w\<lparr>now := now w + delay\<rparr>"
  let ?w' = "snd (check_team_api_queries_concurrency env self ?w1)"
  have e: "elapsed (c # checks) = delay + elapsed checks"
    by (simp add: c elapsed_def)
  have within: "case default_timeout env of None \<Rightarrow> True
                | Some timeout \<Rightarrow> elapsed checks < timeout"
    using Cons.prems e by (simp split: option.splits)
  show ?case
  proof (cases "team_id self = t \<and> feature_calls ?w' \<noteq> feature_calls ?w1")
    case True
    have "case default_timeout env of None \<Rightarrow> True
          | Some timeout \<Rightarrow> now ?w1 + elapsed checks < now ?w1 + timeout"
      using within by (simp split: option.splits)
    with True have "fresh_until (cache_key env self) (now ?w1 + elapsed checks) ?w'"
      using check_call_caches [of env self ?w1 "now ?w1 + elapsed checks"] by blast
    then have "invocations_for env (team_id self) checks ?w' = 0"
      by (rule invocations_for_fresh) simp
    then show ?thesis
      using True check_calls_le_1 [of env self ?w1] by (simp add: c Let_def)
  next
    case False
    then have "(if team_id self = t
                then length (feature_calls ?w') - length (feature_calls ?w1) else 0) = 0"
      by auto
    then show ?thesis using Cons.IH [OF within, of ?w'] by (simp add: c Let_def)
  qed
qed

text \<open>
  C1, as the code has it. The key of the entry determines the tenant id and the feature
  name, and conversely. When the cache has an entry under the tenant's key that has not
  expired, the feature check returns it, with the state unchanged and no call of the
  subscription collaborator. With no such entry and a resolvable tenant it asks the
  subscription collaborator once, stores the answer under the key, to expire after the
  default timeout of the cache backend (\<^verbatim>\<open>cache.set\<close> is given no timeout), and returns
  it. With no such entry and an unresolvable tenant it returns false and leaves the state
  as it was, so the next call starts from the same state. The check of another tenant
  leaves the entry of this one as it is. In any sequence of checks on one cache, by any
  tenants in any order, that takes less time than the default timeout (or any time at all
  when entries never expire), the checks of one tenant call the subscription collaborator
  at most once.
\<close>

theorem check_team_api_queries_concurrency_memoised:
  "(cache_key env self = cache_key env' self' \<longleftrightarrow>
      team_id self = team_id self' \<and> API_QUERIES_CONCURRENCY env = API_QUERIES_CONCURRENCY env')
   \<and> (cache_get (cache_key env self) w = Some cached \<longrightarrow>
      check_team_api_queries_concurrency env self w = (cached, w))
   \<and> (cache_get (cache_key env self) w = None \<and> team self = Some tm \<longrightarrow>
      check_team_api_queries_concurrency env self w =
        (is_feature_available env (organization tm) (API_QUERIES_CONCURRENCY env),
         w\<lparr>cache := (cache w)(cache_key env self \<mapsto>
              (is_feature_available env (organization tm) (API_QUERIES_CONCURRENCY env),
               map_option (\<lambda>timeout. now w + timeout) (default_timeout env))),
           feature_calls := feature_calls w @
              [(organization tm, API_QUERIES_CONCURRENCY env)]\<rparr>))
   \<and> (cache_get (cache_key env self) w = None \<and> team self = None \<longrightarrow>
      check_team_api_queries_concurrency env self w = (False, w))
   \<and> (team_id self' \<noteq> team_id self \<longrightarrow>
      cache (snd (check_team_api_queries_concurrency env self' w)) (cache_key env self) =
        cache w (cache_key env self))
   \<and> ((case default_timeout env of None \<Rightarrow> True | Some timeout \<Rightarrow> elapsed checks < timeout) \<longrightarrow>
      invocations_for env t checks w \<le> 1)"
proof -
  have other: "cache (snd (check_team_api_queries_concurrency env self' w)) (cache_key env self) =
                 cache w (cache_key env self)"
    if "team_id self' \<noteq> team_id self"
    using that cache_key_inj [of env self env self'] check_other_key [of "cache_key env self" env self' w]
    by simp
  show ?thesis
    using cache_key_inj [of env self env' self'] other
          invocations_for_le_1 [where env = env and checks = checks and t = t and w = w]
    by (simp add: check_team_api_queries_concurrency_def cache_set_def Let_def)
qed

text \<open>
  Not once per lifetime of the cache: with entries that live 300 seconds and a cache that
  nobody clears, three checks of tenant 2, at 0, 1 and 301 seconds, call the subscription
  collaborator twice.
\<close>

theorem check_team_api_queries_concurrency_expiry_counterexample:
  "default_timeout env0 = Some 300
   \<and> invocations_for env0 2 [(0, self0), (1, self0), (300, self0)] w0 = 2"
  by code_simp

text \<open>
  Tenants 2 and 3 have different keys. An entry of tenant 2 that expires at 300 is
  returned at 299, also after a check of tenant 3, and recomputed at 301; three checks
  within 299 seconds call the collaborator for tenant 2 once at most.
\<close>

theorem check_team_api_queries_concurrency_memoised_witness:
  "cache_key env0 self0 \<noteq> cache_key env0 self3
   \<and> check_team_api_queries_concurrency env0 self0
        (w0\<lparr>now := 299, cache := [''team/2/feature/api_queries_concurrency'' \<mapsto> (False, Some 300)]\<rparr>)
     = (False,
        w0\<lparr>now := 299, cache := [''team/2/feature/api_queries_concurrency'' \<mapsto> (False, Some 300)]\<rparr>)
   \<and> cache (snd (check_team_api_queries_concurrency env0 self3
        (w0\<lparr>now := 299, cache := [''team/2/feature/api_queries_concurrency'' \<mapsto> (False, Some 300)]\<rparr>)))
        ''team/2/feature/api_queries_concurrency'' = Some (False, Some 300)
   \<and> check_team_api_queries_concurrency env0 self0
        (w0\<lparr>now := 301, cache := [''team/2/feature/api_queries_concurrency'' \<mapsto> (False, Some 300)]\<rparr>)
     = (True,
        w0\<lparr>now := 301, cache := [''team/2/feature/api_queries_concurrency'' \<mapsto> (True, Some 601)],
           feature_calls := [(7, ''api_queries_concurrency'')]\<rparr>)
   \<and> check_team_api_queries_concurrency env0 (self0\<lparr>team := None\<rparr>) w0 = (False, w0)
   \<and> invocations_for env0 2 [(0, self0), (1, self3), (298, self0)] w0 \<le> 1"
  using check_team_api_queries_concurrency_memoised
          [where env = env0 and self = self0 and env' = env0 and self' = self3 and cached = False
             and tm = "\<lparr>team_pk = 2, organization = 7\<rparr>" and t = 2
             and checks = "[(0, self0), (1, self3), (298, self0)]"
             and w = "w0\<lparr>now := 299,
                        cache := [''team/2/feature/api_queries_concurrency'' \<mapsto> (False, Some 300)]\<rparr>"]
        check_team_api_queries_concurrency_memoised
          [where env = env0 and self = self0 and env' = env0 and self' = self3 and cached = False
             and tm = "\<lparr>team_pk = 2, organization = 7\<rparr>" and t = 2
             and checks = "[(0, self0), (1, self3), (298, self0)]"
             and w = "w0\<lparr>now := 301,
                        cache := [''team/2/feature/api_queries_concurrency'' \<mapsto> (False, Some 300)]\<rparr>"]
        check_team_api_queries_concurrency_memoised
          [where env = env0 and self = "self0\<lparr>team := None\<rparr>" and env' = env0 and self' = self3
             and cached = False and tm = "\<lparr>team_pk = 2, organization = 7\<rparr>" and t = 2
             and checks = "[(0, self0), (1, self3), (298, self0)]" and w = w0]
  by (simp add: env0_def self0_def self3_def w0_def cache_key_def str_int_def str_nat.simps
        cache_get_def elapsed_def del: invocations_for.simps)

subsection \<open>How \<^verbatim>\<open>run\<close> ends\<close>

text \<open>
  An exception of the \<^verbatim>\<open>try\<close> body goes through the \<^verbatim>\<open>except\<close> clauses; a response
  is returned as it is.
\<close>

lemma run_raised:
  "is_HogQLQuery (query (data request)) \<Longrightarrow> try_body env self request w = (Inl e, w') \<Longrightarrow>
   run env self request w = except_clauses e w'"
  by (simp add: run_def)

lemma run_returned:
  "is_HogQLQuery (query (data request)) \<Longrightarrow> try_body env self request w = (Inr r, w') \<Longrightarrow>
   run env self request w = (Inr r, w')"
  by (simp add: run_def)

lemma engine_args_resolver_called:
  "engine_args self request qry cqid execution_mode
     (tag_client_query_id cqid (resolver_called self' request' w)) =
   engine_args self request qry cqid execution_mode (tag_client_query_id cqid w)"
  by (simp add: engine_args_def tag_client_query_id_def tag_queries_def
        get_query_tag_value_def resolver_called_def split: option.splits)

lemma try_body_sync:
  "process_query_request env (data request) (team self) (client_query_id (data request))
      (request_user request) = Inr (qry, cqid, execution_mode) \<Longrightarrow>
   execution_mode \<notin> set (ASYNC_MODES env) \<Longrightarrow>
   try_body env self request w =
     (let w1 = tag_client_query_id cqid (resolver_called self request w);
          call = engine_args self request qry cqid execution_mode (tag_client_query_id cqid w);
          w2 = w1\<lparr>dispatched := dispatched w1 @ [call]\<rparr>
      in case process_query_model env call of
           Inl e \<Rightarrow> (Inl e, w2)
         | Inr r \<Rightarrow>
             (let result = (case r of ModelResult m \<Rightarrow> model_dump env m | DictResult d \<Rightarrow> d)
              in case response_status result of
                   Inl e \<Rightarrow> (Inl e, w2)
                 | Inr st \<Rightarrow> (Inr \<lparr>body = result, status = st\<rparr>, w2)))"
  by (simp add: try_body_def Let_def engine_args_resolver_called cong: sum.case_cong)

lemma tag_client_query_id_captured [simp]:
  "captured (tag_client_query_id cqid w) = captured w"
  by (simp add: tag_client_query_id_def tag_queries_def split: option.splits)

lemma tag_client_query_id_dispatched [simp]:
  "dispatched (tag_client_query_id cqid w) = dispatched w"
  by (simp add: tag_client_query_id_def tag_queries_def split: option.splits)

lemma resolver_called_fields [simp]:
  "captured (resolver_called self request w) = captured w"
  "dispatched (resolver_called self request w) = dispatched w"
  "tags (resolver_called self request w) = tags w"
  by (simp_all add: resolver_called_def)

lemma tag_client_query_id_resolver_called_tags:
  "tags (tag_client_query_id cqid (resolver_called self request w)) =
   tags (tag_client_query_id cqid w)"
  by (simp add: tag_client_query_id_def tag_queries_def split: option.splits)

lemma try_body_captured:
  "captured (snd (try_body env self request w)) = captured w"
  by (simp add: try_body_def Let_def split: sum.splits prod.splits)

lemma try_body_async:
  "process_query_request env (data request) (team self) (client_query_id (data request))
      (request_user request) = Inr (qry, cqid, execution_mode) \<Longrightarrow>
   execution_mode \<in> set (ASYNC_MODES env) \<Longrightarrow>
   try_body env self request w =
     (Inl (ValidationError ''only sync modes are supported (refresh param)'' PyNone),
      tag_client_query_id cqid (resolver_called self request w))"
  by (simp add: try_body_def Let_def)

text \<open>When the \<^verbatim>\<open>try\<close> body raises: the resolver raised, or the engine did.\<close>

lemma try_body_resolver_raises:
  "process_query_request env (data request) (team self) (client_query_id (data request))
      (request_user request) = Inl e \<Longrightarrow>
   try_body env self request w = (Inl e, resolver_called self request w)"
  by (simp add: try_body_def)

lemma try_body_engine_raises:
  "process_query_request env (data request) (team self) (client_query_id (data request))
      (request_user request) = Inr (qry, cqid, execution_mode) \<Longrightarrow>
   execution_mode \<notin> set (ASYNC_MODES env) \<Longrightarrow>
   process_query_model env
      (engine_args self request qry cqid execution_mode (tag_client_query_id cqid w)) = Inl e \<Longrightarrow>
   fst (try_body env self request w) = Inl e"
  by (simp add: try_body_sync Let_def)

lemma except_Exception_no_message:
  "\<not> truthy (getattr e ''message'' PyNone) \<Longrightarrow>
   except_Exception e w = (Inl e, capture_exception e w)"
  by (simp add: except_Exception_def handle_column_ch_error_def Let_def)

lemma except_clauses_uncaught:
  "caught_as e [ExposedHogQLError, ExposedCHQueryError, HogVMException, ResolutionError,
                ConcurrencyLimitExceeded] = None \<Longrightarrow>
   except_clauses e w = except_Exception e w"
  by (cases e) (auto simp add: except_clauses_def split: if_splits)

lemma except_clauses_ValidationError:
  "except_clauses (ValidationError d c) w =
     (Inl (ValidationError d c), capture_exception (ValidationError d c) w)"
  by (simp add: except_clauses_def except_Exception_no_message)

lemma except_clauses_tags [simp]: "tags (snd (except_clauses e w)) = tags w"
  by (simp add: except_clauses_def except_Exception_def capture_exception_def
        split: option.splits sum.splits)

lemma except_clauses_dispatched [simp]: "dispatched (snd (except_clauses e w)) = dispatched w"
  by (simp add: except_clauses_def except_Exception_def capture_exception_def
        split: option.splits sum.splits)

lemma try_body_sync_world:
  "process_query_request env (data request) (team self) (client_query_id (data request))
      (request_user request) = Inr (qry, cqid, execution_mode) \<Longrightarrow>
   execution_mode \<notin> set (ASYNC_MODES env) \<Longrightarrow>
   snd (try_body env self request w) =
     (tag_client_query_id cqid (resolver_called self request w))\<lparr>dispatched := dispatched w @
        [engine_args self request qry cqid execution_mode (tag_client_query_id cqid w)]\<rparr>"
  by (simp add: try_body_sync Let_def split: sum.splits)

lemma run_world:
  "is_HogQLQuery (query (data request)) \<Longrightarrow>
   tags (snd (run env self request w)) = tags (snd (try_body env self request w))
   \<and> dispatched (snd (run env self request w)) = dispatched (snd (try_body env self request w))"
  by (cases "try_body env self request w") (simp add: run_def split: sum.splits)

lemma try_body_no_id_tags:
  "process_query_request env (data request) (team self) (client_query_id (data request))
      (request_user request) = Inr (qry, None, execution_mode) \<Longrightarrow>
   tags (snd (try_body env self request w)) = tags w"
  by (simp add: try_body_def Let_def tag_client_query_id_def split: sum.splits)

subsection \<open>The catch-all handler\<close>

text \<open>
  C2, as the code has it. Take a failure that reaches the last handler: the \<^verbatim>\<open>try\<close>
  body raised it and it is an instance of none of the five classes of the earlier
  clauses. If its \<^verbatim>\<open>message\<close> attribute is a nonempty string in which
  \<^verbatim>\<open>re.search\<close> finds \<^verbatim>\<open>There's no column.*in table\<close>, \<^verbatim>\<open>run\<close> raises a
  \<^verbatim>\<open>ValidationError\<close> whose message is the matched text followed by the note on beta
  support, and nothing is reported to exception tracking. If the attribute is absent or
  falsy, or is a string without a match, the failure is reported to exception tracking
  once and raised again unchanged.
\<close>

theorem catch_all_handler:
  assumes "is_HogQLQuery (query (data request))"
    and "try_body env self request w = (Inl e, w')"
    and "caught_as e [ExposedHogQLError, ExposedCHQueryError, HogVMException, ResolutionError,
                      ConcurrencyLimitExceeded] = None"
  shows "(getattr e ''message'' PyNone = PyStr s \<and> s \<noteq> []
          \<and> re_search column_pattern_pre column_pattern_suf s = Some group0 \<longrightarrow>
            run env self request w = (Inl (ValidationError (group0 @ beta_note) PyNone), w')
            \<and> captured w' = captured w)
       \<and> (\<not> truthy (getattr e ''message'' PyNone)
          \<or> (getattr e ''message'' PyNone = PyStr s
             \<and> re_search column_pattern_pre column_pattern_suf s = None) \<longrightarrow>
            run env self request w = (Inl e, w'\<lparr>captured := captured w @ [e]\<rparr>))"
proof -
  have r: "run env self request w = except_Exception e w'"
    using run_raised [OF assms(1,2)] except_clauses_uncaught [OF assms(3), of w'] by simp
  have c: "captured w' = captured w"
    using try_body_captured [of env self request w] assms(2) by simp
  show ?thesis
    unfolding r using c
    by (auto simp add: except_Exception_def handle_column_ch_error_def Let_def
          capture_exception_def)
qed

text \<open>
  The pattern is the one of the code, not "no such column ... in table": an engine error
  whose message is \<^verbatim>\<open>no such column foo in table bar\<close> matches the latter, and it is
  reported and raised again, not turned into a \<^verbatim>\<open>ValidationError\<close>.
\<close>

theorem catch_all_handler_counterexample:
  "re_search ''no such column'' ''in table'' ''no such column foo in table bar''
     = Some ''no such column foo in table''
   \<and> fst (run (engine_raising (PyExc nsc_error)) self0 req0 w0) = Inl (PyExc nsc_error)
   \<and> captured (snd (run (engine_raising (PyExc nsc_error)) self0 req0 w0)) = [PyExc nsc_error]"
  by (simp add: ex_defs run_defs)

text \<open>
  An engine error with a matching message becomes a \<^verbatim>\<open>ValidationError\<close> and is not
  reported; one whose message has no match is reported and raised again.
\<close>

theorem catch_all_handler_witness:
  "fst (run (engine_raising (PyExc column_error)) self0 req0 w0) =
     Inl (ValidationError
           (''There'' @ [CHR 0x27] @ ''s no column foo in table'' @
            ''. Note: While in beta, not all column types may be fully supported'') PyNone)
   \<and> captured (snd (run (engine_raising (PyExc column_error)) self0 req0 w0)) = []
   \<and> fst (run (engine_raising (PyExc nsc_error)) self0 req0 w0) = Inl (PyExc nsc_error)
   \<and> captured (snd (run (engine_raising (PyExc nsc_error)) self0 req0 w0)) = [PyExc nsc_error]"
  using catch_all_handler [of req0 "engine_raising (PyExc column_error)" self0 w0
          "PyExc column_error"
          "snd (try_body (engine_raising (PyExc column_error)) self0 req0 w0)"
          "''DB::Exception: There'' @ [CHR 0x27] @ ''s no column foo in table events. Stack trace''"
          "''There'' @ [CHR 0x27] @ ''s no column foo in table''"]
        catch_all_handler [of req0 "engine_raising (PyExc nsc_error)" self0 w0
          "PyExc nsc_error"
          "snd (try_body (engine_raising (PyExc nsc_error)) self0 req0 w0)"
          "''no such column foo in table bar''"]
  by (simp add: ex_defs run_defs)

subsection \<open>The status of the response\<close>

text \<open>
  C3. Take a request that was dispatched and whose engine call returned, and let
  \<open>result\<close> be the returned mapping, after \<^verbatim>\<open>model_dump\<close> when the engine returned a
  model. If \<^verbatim>\<open>query_status\<close> is a nonempty mapping whose \<^verbatim>\<open>complete\<close> is
  \<^verbatim>\<open>False\<close>, the response has status 202. If \<^verbatim>\<open>query_status\<close> is missing,
  \<^verbatim>\<open>None\<close> or empty, or is a mapping whose \<^verbatim>\<open>complete\<close> is missing, true or
  anything but \<^verbatim>\<open>False\<close>, the status is 200. In both cases the body is \<open>result\<close>
  itself. (A \<^verbatim>\<open>query_status\<close> that is truthy and not a mapping is outside the
  statement: there \<^verbatim>\<open>.get\<close> raises.)
\<close>

theorem run_response_status:
  assumes "is_HogQLQuery (query (data request))"
    and "process_query_request env (data request) (team self) (client_query_id (data request))
           (request_user request) = Inr (qry, cqid, execution_mode)"
    and "execution_mode \<notin> set (ASYNC_MODES env)"
    and "process_query_model env
           (engine_args self request qry cqid execution_mode (tag_client_query_id cqid w)) = Inr r"
    and "result = (case r of ModelResult m \<Rightarrow> model_dump env m | DictResult d \<Rightarrow> d)"
  shows "(dict_get result ''query_status'' = PyDict qs \<and> qs \<noteq> []
          \<and> dict_get qs ''complete'' = PyBool False \<longrightarrow>
            fst (run env self request w) = Inr \<lparr>body = result, status = 202\<rparr>)
       \<and> (\<not> truthy (dict_get result ''query_status'')
          \<or> (dict_get result ''query_status'' = PyDict qs
             \<and> dict_get qs ''complete'' \<noteq> PyBool False) \<longrightarrow>
            fst (run env self request w) = Inr \<lparr>body = result, status = 200\<rparr>)"
proof -
  have t: "fst (try_body env self request w) =
             (case response_status result of
                Inl e \<Rightarrow> Inl e
              | Inr st \<Rightarrow> Inr \<lparr>body = result, status = st\<rparr>)"
    using assms(4,5) by (simp add: try_body_sync [OF assms(2,3)] Let_def split: sum.splits)
  have ok: "fst (run env self request w) = Inr \<lparr>body = result, status = st\<rparr>"
    if "response_status result = Inr st" for st
    using that t assms(1) by (cases "try_body env self request w") (simp add: run_def)
  have s202: "response_status result = Inr 202"
    if "dict_get result ''query_status'' = PyDict qs" "qs \<noteq> []"
       "dict_get qs ''complete'' = PyBool False"
    using that by (simp add: response_status_def HTTP_202_ACCEPTED_def)
  have s200a: "response_status result = Inr 200"
    if "\<not> truthy (dict_get result ''query_status'')"
    using that by (simp add: response_status_def HTTP_200_OK_def)
  have s200b: "response_status result = Inr 200"
    if "dict_get result ''query_status'' = PyDict qs" "dict_get qs ''complete'' \<noteq> PyBool False"
    using that by (simp add: response_status_def HTTP_200_OK_def)
  show ?thesis using ok s202 s200a s200b by blast
qed

text \<open>
  The two scenarios of the specification, and a model result with an alias.
\<close>

theorem run_response_status_witness:
  "fst (run (engine_returning (DictResult incomplete_result)) self0 req0 w0) =
     Inr \<lparr>body = [(''query_status'', PyDict [(''complete'', PyBool False)]), (''rows'', PyList [])],
          status = 202\<rparr>
   \<and> fst (run (engine_returning (DictResult rows_result)) self0 req0 w0) =
     Inr \<lparr>body = [(''rows'', PyList [PyInt 1, PyInt 2, PyInt 3])], status = 200\<rparr>
   \<and> fst (run (engine_returning (ModelResult model_result)) self0 req0 w0) =
     Inr \<lparr>body = [(''query_status'', PyDict [(''complete'', PyBool True)]),
                  (''hasMore'', PyBool False)], status = 200\<rparr>"
  using run_response_status [of req0 "engine_returning (DictResult incomplete_result)" self0
          "HogQLQuery ''select 1''" "Some ''abc123''" "''blocking''" w0
          "DictResult incomplete_result" incomplete_result "[(''complete'', PyBool False)]"]
        run_response_status [of req0 "engine_returning (DictResult rows_result)" self0
          "HogQLQuery ''select 1''" "Some ''abc123''" "''blocking''" w0
          "DictResult rows_result" rows_result]
        run_response_status [of req0 "engine_returning (ModelResult model_result)" self0
          "HogQLQuery ''select 1''" "Some ''abc123''" "''blocking''" w0
          "ModelResult model_result"
          "[(''query_status'', PyDict [(''complete'', PyBool True)]),
                  (''hasMore'', PyBool False)]" "[(''complete'', PyBool True)]"]
  by (simp add: ex_defs dict_get_def)

subsection \<open>Asynchronous modes\<close>

text \<open>
  C4. When the resolver returns one of \<^verbatim>\<open>ASYNC_MODES\<close> for a HogQL request,
  \<^verbatim>\<open>run\<close> raises \<^verbatim>\<open>ValidationError("only sync modes are supported (refresh param)")\<close>
  and \<^verbatim>\<open>process_query_model\<close> has not been called.
\<close>

theorem run_rejects_async_modes:
  assumes "is_HogQLQuery (query (data request))"
    and "process_query_request env (data request) (team self) (client_query_id (data request))
           (request_user request) = Inr (qry, cqid, execution_mode)"
    and "execution_mode \<in> set (ASYNC_MODES env)"
  shows "fst (run env self request w) =
           Inl (ValidationError ''only sync modes are supported (refresh param)'' PyNone)
         \<and> dispatched (snd (run env self request w)) = dispatched w"
  using run_raised [OF assms(1) try_body_async [OF assms(2,3)], of w]
  by (simp add: except_clauses_ValidationError capture_exception_def)

theorem run_rejects_async_modes_witness:
  "fst (run env_async self0 req0 w0) =
     Inl (ValidationError ''only sync modes are supported (refresh param)'' PyNone)
   \<and> dispatched (snd (run env_async self0 req0 w0)) = []"
  using run_rejects_async_modes [of req0 env_async self0
          "HogQLQuery ''select 1''" "Some ''abc123''" "''force_async''" w0]
  by (simp add: ex_defs)

subsection \<open>Throttling\<close>

text \<open>
  C5. When the \<^verbatim>\<open>try\<close> body raises \<^verbatim>\<open>ConcurrencyLimitExceeded\<close>, \<^verbatim>\<open>run\<close> raises
  \<^verbatim>\<open>Throttled\<close> with \<^verbatim>\<open>str\<close> of that exception as its detail: not a
  \<^verbatim>\<open>ValidationError\<close>, not the exception itself, and nothing is reported to exception
  tracking.
\<close>

theorem run_throttled:
  assumes "is_HogQLQuery (query (data request))"
    and "try_body env self request w = (Inl (PyExc c), w')"
    and "exc_class c = ConcurrencyLimitExceeded"
  shows "run env self request w = (Inl (Throttled (exc_str c)), w')
         \<and> (\<forall>detail code. fst (run env self request w) \<noteq> Inl (ValidationError detail code))
         \<and> fst (run env self request w) \<noteq> Inl (PyExc c)
         \<and> captured (snd (run env self request w)) = captured w"
  using run_raised [OF assms(1,2)] assms(3) try_body_captured [of env self request w] assms(2)
  by (simp add: except_clauses_def)

theorem run_throttled_witness:
  "fst (run (engine_raising (PyExc limit_error)) self0 req0 w0) =
     Inl (Throttled ''team X exceeded limit'')
   \<and> captured (snd (run (engine_raising (PyExc limit_error)) self0 req0 w0)) = []"
  using run_throttled [of req0 "engine_raising (PyExc limit_error)" self0 w0 limit_error
          "snd (try_body (engine_raising (PyExc limit_error)) self0 req0 w0)"]
  by (simp add: ex_defs run_defs)

subsection \<open>Engine and script errors\<close>

text \<open>
  C6. When the \<^verbatim>\<open>try\<close> body raises an \<^verbatim>\<open>ExposedHogQLError\<close>, an
  \<^verbatim>\<open>ExposedCHQueryError\<close> or a \<^verbatim>\<open>HogVMException\<close>, \<^verbatim>\<open>run\<close> raises a
  \<^verbatim>\<open>ValidationError\<close> with \<^verbatim>\<open>str\<close> of the exception as message and its
  \<^verbatim>\<open>code_name\<close> as code, \<^verbatim>\<open>None\<close> when it has no such attribute. When it raises a
  \<^verbatim>\<open>ResolutionError\<close>, the \<^verbatim>\<open>ValidationError\<close> has the message and no code, whatever
  attributes the exception has.
\<close>

theorem run_validation_errors:
  assumes "is_HogQLQuery (query (data request))"
    and "try_body env self request w = (Inl (PyExc e), w')"
  shows "(exc_class e \<in> {ExposedHogQLError, ExposedCHQueryError, HogVMException} \<longrightarrow>
            run env self request w =
              (Inl (ValidationError (exc_str e)
                     (case map_of (exc_attrs e) ''code_name'' of Some c \<Rightarrow> c | None \<Rightarrow> PyNone)), w'))
         \<and> (exc_class e = ResolutionError \<longrightarrow>
            run env self request w = (Inl (ValidationError (exc_str e) PyNone), w'))"
  using run_raised [OF assms(1,2)]
  by (auto simp add: except_clauses_def)


theorem run_validation_errors_witness:
  "fst (run (engine_raising (PyExc hogql_error)) self0 req0 w0) =
     Inl (ValidationError ''Unknown table'' (PyStr ''unknown_table''))
   \<and> fst (run (engine_raising (PyExc resolution_error)) self0 req0 w0) =
     Inl (ValidationError ''Unable to resolve field: x'' PyNone)"
  using run_validation_errors [of req0 "engine_raising (PyExc hogql_error)" self0 w0 hogql_error
          "snd (try_body (engine_raising (PyExc hogql_error)) self0 req0 w0)"]
        run_validation_errors [of req0 "engine_raising (PyExc resolution_error)" self0 w0
          resolution_error
          "snd (try_body (engine_raising (PyExc resolution_error)) self0 req0 w0)"]
  by (simp add: ex_defs run_defs)

subsection \<open>Tagging the client query id\<close>

text \<open>
  C7, as the code has it. \<^verbatim>\<open>_tag_client_query_id\<close> leaves the state as it is when the
  id is \<^verbatim>\<open>None\<close>, and for every other id, the empty string too, it sets the tag
  \<^verbatim>\<open>client_query_id\<close> and nothing else. In \<^verbatim>\<open>run\<close>, when the resolver returns an id
  and a mode that is not asynchronous, the engine is called once, with that id and with
  the id in the tags in force during the call; when the resolver returns no id, the tags
  after \<^verbatim>\<open>run\<close> are the tags before.
\<close>

theorem tag_client_query_id_unless_None:
  "tag_client_query_id None w = w
   \<and> tag_client_query_id (Some cid) w = w\<lparr>tags := (tags w)(''client_query_id'' \<mapsto> PyStr cid)\<rparr>
   \<and> (is_HogQLQuery (query (data request))
        \<and> process_query_request env (data request) (team self) (client_query_id (data request))
             (request_user request) = Inr (qry, Some cid, execution_mode)
        \<and> execution_mode \<notin> set (ASYNC_MODES env) \<longrightarrow>
        (\<exists>call. dispatched (snd (run env self request w)) = dispatched w @ [call]
           \<and> call_query_id call = Some cid
           \<and> call_tags call = (tags w)(''client_query_id'' \<mapsto> PyStr cid)))
   \<and> (is_HogQLQuery (query (data request))
        \<and> process_query_request env (data request) (team self) (client_query_id (data request))
             (request_user request) = Inr (qry, None, execution_mode) \<longrightarrow>
        tags (snd (run env self request w)) = tags w)"
proof -
  have a: "tag_client_query_id None w = w"
    by (simp add: tag_client_query_id_def)
  have b: "tag_client_query_id (Some cid) w = w\<lparr>tags := (tags w)(''client_query_id'' \<mapsto> PyStr cid)\<rparr>"
    by (simp add: tag_client_query_id_def tag_queries_def)
  have c: "\<exists>call. dispatched (snd (run env self request w)) = dispatched w @ [call]
           \<and> call_query_id call = Some cid
           \<and> call_tags call = (tags w)(''client_query_id'' \<mapsto> PyStr cid)"
    if "is_HogQLQuery (query (data request))"
      and "process_query_request env (data request) (team self) (client_query_id (data request))
             (request_user request) = Inr (qry, Some cid, execution_mode)"
      and "execution_mode \<notin> set (ASYNC_MODES env)"
    using run_world [OF that(1), of env self w] try_body_sync_world [OF that(2,3), of w]
    by (simp add: engine_args_def b)
  have d: "tags (snd (run env self request w)) = tags w"
    if "is_HogQLQuery (query (data request))"
      and "process_query_request env (data request) (team self) (client_query_id (data request))
             (request_user request) = Inr (qry, None, execution_mode)"
    using run_world [OF that(1), of env self w] try_body_no_id_tags [OF that(2), of w]
    by simp
  show ?thesis using a b c d by blast
qed

text \<open>
  The empty string is tagged like any other id: the tags, empty before, hold it after.
\<close>

theorem tag_client_query_id_empty_counterexample:
  "tags w0 ''client_query_id'' = None
   \<and> tags (tag_client_query_id (Some []) w0) ''client_query_id'' = Some (PyStr [])
   \<and> tags (snd (run env0 self0 req_empty_id w0)) ''client_query_id'' = Some (PyStr [])"
  by (simp add: ex_defs run_defs)

text \<open>
  With the id \<^verbatim>\<open>abc123\<close> the engine call sees the tag; without an id the tags stay
  empty.
\<close>

theorem tag_client_query_id_unless_None_witness:
  "(\<exists>call. dispatched (snd (run env0 self0 req0 w0)) = [call]
      \<and> call_query_id call = Some ''abc123''
      \<and> call_tags call = [''client_query_id'' \<mapsto> PyStr ''abc123''])
   \<and> tags (snd (run env0 self0 req_no_id w0)) = Map.empty"
  using tag_client_query_id_unless_None [of w0 "''abc123''" req0 env0 self0
          "HogQLQuery ''select 1''" "''blocking''"]
        tag_client_query_id_unless_None [of w0 _ req_no_id env0 self0
          "HogQLQuery ''select 1''" "''blocking''"]
  by (simp add: ex_defs)

subsection \<open>Unsupported query variants\<close>

text \<open>
  C8, as the code has it. For a request whose query is not a \<^verbatim>\<open>HogQLQuery\<close>,
  \<^verbatim>\<open>run\<close> raises \<^verbatim>\<open>ValidationError("This endpoint only supports HogQLQuery")\<close>, with
  a capital T, and the state is the one before: no tag, no cache entry, no call of a
  collaborator, no report.
\<close>

theorem run_rejects_other_variants:
  "\<not> is_HogQLQuery (query (data request)) \<Longrightarrow>
   run env self request w =
     (Inl (ValidationError ''This endpoint only supports HogQLQuery'' PyNone), w)"
  by (simp add: run_def)

text \<open>
  The message does not start with a small t, whichever variant name is put in.
\<close>

theorem run_rejects_other_variants_counterexample:
  "fst (run env0 self0 req_trends w0) =
     Inl (ValidationError ''This endpoint only supports HogQLQuery'' PyNone)
   \<and> fst (run env0 self0 req_trends w0) \<noteq>
     Inl (ValidationError ''this endpoint only supports HogQLQuery'' PyNone)
   \<and> fst (run env0 self0 req_trends w0) \<noteq>
     Inl (ValidationError ''this endpoint only supports TrendsQuery'' PyNone)"
  by (simp add: ex_defs run_defs)

text \<open>
  A trends query is refused and the state is untouched.
\<close>

theorem run_rejects_other_variants_witness:
  "run env0 self0 req_trends w0 =
     (Inl (ValidationError ''This endpoint only supports HogQLQuery'' PyNone), w0)"
  using run_rejects_other_variants [of req_trends env0 self0 w0]
  by (simp add: ex_defs)

subsection \<open>Failures without a message\<close>

text \<open>
  C9. A failure that reaches the last handler and whose \<^verbatim>\<open>message\<close> attribute is
  absent, \<^verbatim>\<open>None\<close> or another falsy value is reported to exception tracking once and
  raised again unchanged, whatever \<^verbatim>\<open>str\<close> of it is.
\<close>

theorem falsy_message_is_reported:
  assumes "is_HogQLQuery (query (data request))"
    and "try_body env self request w = (Inl e, w')"
    and "caught_as e [ExposedHogQLError, ExposedCHQueryError, HogVMException, ResolutionError,
                      ConcurrencyLimitExceeded] = None"
    and "\<not> truthy (getattr e ''message'' PyNone)"
  shows "run env self request w = (Inl e, capture_exception e w')
         \<and> captured (capture_exception e w') = captured w @ [e]"
  using run_raised [OF assms(1,2)] except_clauses_uncaught [OF assms(3), of w']
        except_Exception_no_message [OF assms(4), of w']
        try_body_captured [of env self request w] assms(2)
  by (simp add: capture_exception_def)

text \<open>
  The string form of this exception matches the pattern, and it has no \<^verbatim>\<open>message\<close>.
\<close>

theorem falsy_message_is_reported_witness:
  "re_search column_pattern_pre column_pattern_suf (exc_str quiet_error) \<noteq> None
   \<and> fst (run (engine_raising (PyExc quiet_error)) self0 req0 w0) = Inl (PyExc quiet_error)
   \<and> captured (snd (run (engine_raising (PyExc quiet_error)) self0 req0 w0)) = [PyExc quiet_error]"
  using falsy_message_is_reported [of req0 "engine_raising (PyExc quiet_error)" self0 w0
          "PyExc quiet_error"
          "snd (try_body (engine_raising (PyExc quiet_error)) self0 req0 w0)"]
  by (simp add: ex_defs run_defs)

subsection \<open>Tagging precedes the check of the mode\<close>

text \<open>
  C10. When the resolver returns an id together with an asynchronous mode, the tags
  after \<^verbatim>\<open>run\<close> hold the id, although \<^verbatim>\<open>run\<close> raised the \<^verbatim>\<open>ValidationError\<close> for
  the mode and the engine was not called.
\<close>

theorem run_tags_before_async_check:
  assumes "is_HogQLQuery (query (data request))"
    and "process_query_request env (data request) (team self) (client_query_id (data request))
           (request_user request) = Inr (qry, Some cid, execution_mode)"
    and "execution_mode \<in> set (ASYNC_MODES env)"
  shows "tags (snd (run env self request w)) = (tags w)(''client_query_id'' \<mapsto> PyStr cid)
         \<and> fst (run env self request w) =
           Inl (ValidationError ''only sync modes are supported (refresh param)'' PyNone)
         \<and> dispatched (snd (run env self request w)) = dispatched w"
  using run_raised [OF assms(1) try_body_async [OF assms(2,3)], of w]
  by (simp add: except_clauses_ValidationError capture_exception_def tag_client_query_id_def tag_queries_def)

theorem run_tags_before_async_check_witness:
  "tags (snd (run env_async self0 req0 w0)) = [''client_query_id'' \<mapsto> PyStr ''abc123'']
   \<and> fst (run env_async self0 req0 w0) =
     Inl (ValidationError ''only sync modes are supported (refresh param)'' PyNone)
   \<and> dispatched (snd (run env_async self0 req0 w0)) = []"
  using run_tags_before_async_check [of req0 env_async self0
          "HogQLQuery ''select 1''" "''abc123''" "''force_async''" w0]
  by (simp add: ex_defs)

end
